theory Spec2Isabelle
  imports Complex_Main
begin

section \<open>Rasters and the Earth Engine image operations used by the script\<close>

text \<open>
  The script \<^verbatim>\<open>deforestation_assessment.js\<close> is written against the Earth Engine
  client library. An image is a grid of pixels, each either holding a number or masked
  (invalid). Every image the script handles is single-band once \<^verbatim>\<open>select\<close> has been
  applied, so a raster is a partial function from grid cells to numbers; \<open>None\<close> is a
  masked pixel. Pixel values are JavaScript numbers; they are modelled as reals, so that
  rounding is not part of the model.
\<close>

type_synonym pixel = "nat \<times> nat"

type_synonym raster = "pixel \<Rightarrow> real option"

text \<open>A comparison yields the number 1 or 0.\<close>

definition b2r :: "bool \<Rightarrow> real" where
  "b2r c = (if c then 1 else 0)"

text \<open>\<^verbatim>\<open>image.lt(c)\<close>, \<^verbatim>\<open>image.gt(c)\<close>, \<^verbatim>\<open>image.eq(c)\<close> against a constant: the mask
  of the image is kept.\<close>

definition img_lt :: "raster \<Rightarrow> real \<Rightarrow> raster" where
  "img_lt r c = (\<lambda>p. case r p of None \<Rightarrow> None | Some v \<Rightarrow> Some (b2r (v < c)))"

definition img_gt :: "raster \<Rightarrow> real \<Rightarrow> raster" where
  "img_gt r c = (\<lambda>p. case r p of None \<Rightarrow> None | Some v \<Rightarrow> Some (b2r (v > c)))"

definition img_eq :: "raster \<Rightarrow> real \<Rightarrow> raster" where
  "img_eq r c = (\<lambda>p. case r p of None \<Rightarrow> None | Some v \<Rightarrow> Some (b2r (v = c)))"

text \<open>\<^verbatim>\<open>a.and(b)\<close>: 1 where both values are non-zero, 0 otherwise; a pixel masked in
  either input is masked in the output.\<close>

definition img_and :: "raster \<Rightarrow> raster \<Rightarrow> raster" where
  "img_and a b = (\<lambda>p. case a p of None \<Rightarrow> None
                      | Some x \<Rightarrow> (case b p of None \<Rightarrow> None
                                  | Some y \<Rightarrow> Some (b2r (x \<noteq> 0 \<and> y \<noteq> 0))))"

text \<open>\<^verbatim>\<open>a.multiply(b)\<close> of two images, and of an image with a number.\<close>

definition img_multiply :: "raster \<Rightarrow> raster \<Rightarrow> raster" where
  "img_multiply a b = (\<lambda>p. case a p of None \<Rightarrow> None
                      | Some x \<Rightarrow> (case b p of None \<Rightarrow> None | Some y \<Rightarrow> Some (x * y)))"

definition multiply_const :: "raster \<Rightarrow> real \<Rightarrow> raster" where
  "multiply_const r c = (\<lambda>p. case r p of None \<Rightarrow> None | Some v \<Rightarrow> Some (v * c))"

text \<open>\<^verbatim>\<open>selfMask()\<close> masks the pixels whose value is zero; \<^verbatim>\<open>unmask(v)\<close> gives
  every masked pixel the value \<open>v\<close>.\<close>

definition selfMask :: "raster \<Rightarrow> raster" where
  "selfMask r = (\<lambda>p. case r p of None \<Rightarrow> None | Some v \<Rightarrow> if v = 0 then None else Some v)"

definition unmask :: "real \<Rightarrow> raster \<Rightarrow> raster" where
  "unmask v r = (\<lambda>p. case r p of None \<Rightarrow> Some v | Some x \<Rightarrow> Some x)"

text \<open>\<^verbatim>\<open>ee.Image(c)\<close> is the constant image; \<^verbatim>\<open>ee.Image().mask(ee.Image(0))\<close> is masked
  everywhere; \<^verbatim>\<open>clip(aoi)\<close> masks what lies outside the geometry.\<close>

definition const_image :: "real \<Rightarrow> raster" where
  "const_image c = (\<lambda>p. Some c)"

definition masked_image :: raster where
  "masked_image = (\<lambda>p. None)"

definition clip :: "(pixel \<Rightarrow> bool) \<Rightarrow> raster \<Rightarrow> raster" where
  "clip aoi r = (\<lambda>p. if aoi p then r p else None)"

text \<open>The median reducer: the middle value of the sorted inputs, the mean of the two
  middle values when their number is even.\<close>

definition median :: "real list \<Rightarrow> real" where
  "median vs = (let s = sort vs; n = length s
                in if n mod 2 = 1 then s ! (n div 2)
                   else (s ! (n div 2 - 1) + s ! (n div 2)) / 2)"

text \<open>\<^verbatim>\<open>collection.median()\<close> reduces pixel by pixel over the unmasked values; a
  pixel with no unmasked value is masked in the result. The script takes the median of
  non-empty collections only: it tests the size first, or filters on a year read from the
  collection itself.\<close>

definition valid_values :: "raster list \<Rightarrow> pixel \<Rightarrow> real list" where
  "valid_values rs p = List.map_filter (\<lambda>r. r p) rs"

definition reduce_median :: "raster list \<Rightarrow> raster" where
  "reduce_median rs = (\<lambda>p. let vs = valid_values rs p
                           in if vs = [] then None else Some (median vs))"

text \<open>\<^verbatim>\<open>collection.mosaic()\<close> composites the images in collection order, a later
  image on top of an earlier one wherever the later one is unmasked.\<close>

fun mosaic :: "raster list \<Rightarrow> raster" where
  "mosaic [] = masked_image"
| "mosaic (r # rs) = (\<lambda>p. case mosaic rs p of Some v \<Rightarrow> Some v | None \<Rightarrow> r p)"

text \<open>\<^verbatim>\<open>reduceRegion\<close> with the sum reducer: the sum of the unmasked values over the
  grid cells of the region (0 when there is none). The region at the given scale is the
  list of its cells.\<close>

definition reduceRegion_sum :: "raster \<Rightarrow> pixel list \<Rightarrow> real" where
  "reduceRegion_sum r geometry = sum_list (List.map_filter r geometry)"

section \<open>Dates and scenes\<close>

text \<open>An instant is a calendar date and the milliseconds elapsed since its midnight
  (UTC); instants are compared field by field, which is their order in time.\<close>

record date =
  d_year :: int
  d_month :: nat
  d_day :: nat
  d_ms :: nat

definition date_lt :: "date \<Rightarrow> date \<Rightarrow> bool" where
  "date_lt a b =
     (d_year a < d_year b \<or> (d_year a = d_year b \<and>
       (d_month a < d_month b \<or> (d_month a = d_month b \<and>
         (d_day a < d_day b \<or> (d_day a = d_day b \<and> d_ms a < d_ms b))))))"

definition date_le :: "date \<Rightarrow> date \<Rightarrow> bool" where
  "date_le a b = (date_lt a b \<or> a = b)"

text \<open>\<^verbatim>\<open>ee.Date.fromYMD(y, m, d)\<close> is midnight of that day.\<close>

definition fromYMD :: "int \<Rightarrow> nat \<Rightarrow> nat \<Rightarrow> date" where
  "fromYMD y m d = \<lparr>d_year = y, d_month = m, d_day = d, d_ms = 0\<rparr>"

text \<open>A scene of a sensor's collection: its acquisition instant
  (\<^verbatim>\<open>system:time_start\<close>) and its NDVI band, cloud-masked.\<close>

record scene =
  time_start :: date
  ndvi :: raster

text \<open>\<^verbatim>\<open>filterDate(start, end)\<close> keeps the scenes acquired at or after \<open>start\<close> and
  before \<open>end\<close>: the end of the range is exclusive.\<close>

definition filterDate :: "date \<Rightarrow> date \<Rightarrow> scene list \<Rightarrow> scene list" where
  "filterDate startDate endDate collection =
     filter (\<lambda>s. date_le startDate (time_start s) \<and> date_lt (time_start s) endDate) collection"

section \<open>Annual composites\<close>

text \<open>An image of the pipeline: its \<^verbatim>\<open>year\<close> property, the name of its band and
  the band.\<close>

record image =
  year :: int
  bname :: string
  px :: raster

text \<open>The body of the loop of \<^verbatim>\<open>createAnnualMedianComposite\<close>.\<close>

definition medianImage :: "scene list \<Rightarrow> int \<Rightarrow> (pixel \<Rightarrow> bool) \<Rightarrow> image" where
  "medianImage collection y aoi =
     (let startDate = fromYMD y 1 1;
          endDate = fromYMD y 12 31;
          yearlyCollection = filterDate startDate endDate collection;
          count = length yearlyCollection
      in if count > 0
         then \<lparr>year = y, bname = ''NDVI'',
               px = clip aoi (reduce_median (map ndvi yearlyCollection))\<rparr>
         else \<lparr>year = y, bname = ''NDVI'', px = masked_image\<rparr>)"

function compositeLoop ::
  "scene list \<Rightarrow> (pixel \<Rightarrow> bool) \<Rightarrow> int \<Rightarrow> int \<Rightarrow> image list \<Rightarrow> image list" where
  "compositeLoop collection aoi y endYear annualCompositesList =
     (if y \<le> endYear
      then compositeLoop collection aoi (y + 1) endYear
             (annualCompositesList @ [medianImage collection y aoi])
      else annualCompositesList)"
  by pat_completeness auto
termination
  by (relation "measure (\<lambda>(c, a, y, e, l). nat (e + 1 - y))") auto

declare compositeLoop.simps [simp del]

definition createAnnualMedianComposite ::
  "scene list \<Rightarrow> int \<Rightarrow> int \<Rightarrow> (pixel \<Rightarrow> bool) \<Rightarrow> image list" where
  "createAnnualMedianComposite collection startYear endYear aoi =
     compositeLoop collection aoi startYear endYear []"

section \<open>Initial forest mask\<close>

definition baselineAnnualNdvi :: "image list \<Rightarrow> int \<Rightarrow> int \<Rightarrow> image list" where
  "baselineAnnualNdvi annualL5Composites baselineStartYear baselineEndYear =
     filter (\<lambda>im. year im \<le> baselineEndYear)
       (filter (\<lambda>im. year im \<ge> baselineStartYear) annualL5Composites)"

definition baselineNdviComposite :: "image list \<Rightarrow> int \<Rightarrow> int \<Rightarrow> raster" where
  "baselineNdviComposite annualL5Composites baselineStartYear baselineEndYear =
     (let b = baselineAnnualNdvi annualL5Composites baselineStartYear baselineEndYear
      in if length b > 0 then reduce_median (map px b) else masked_image)"

definition initialForestMask :: "image list \<Rightarrow> int \<Rightarrow> int \<Rightarrow> real \<Rightarrow> raster" where
  "initialForestMask annualL5Composites baselineStartYear baselineEndYear forestNdviThreshold =
     selfMask (img_gt (baselineNdviComposite annualL5Composites baselineStartYear baselineEndYear)
                 forestNdviThreshold)"

section \<open>Yearly deforestation and its refinement\<close>

definition allAnnualNdviComposites :: "image list \<Rightarrow> image list \<Rightarrow> image list \<Rightarrow> image list" where
  "allAnnualNdviComposites annualL5Composites annualL7Composites annualL8Composites =
     sort_key year (annualL5Composites @ annualL7Composites @ annualL8Composites)"

definition distinctYears :: "image list \<Rightarrow> int list" where
  "distinctYears allComposites = sort (remdups (map year allComposites))"

definition uniqueAnnualNdviComposites :: "image list \<Rightarrow> image list" where
  "uniqueAnnualNdviComposites allComposites =
     map (\<lambda>y. let yearComposites = filter (\<lambda>im. year im = y) allComposites
              in \<lparr>year = y, bname = ''NDVI'', px = reduce_median (map px yearComposites)\<rparr>)
         (distinctYears allComposites)"

definition detectDeforestation :: "image \<Rightarrow> raster \<Rightarrow> real \<Rightarrow> image" where
  "detectDeforestation currentNdviImage initialForest deforestThresh =
     (let y = year currentNdviImage;
          potentialDeforestation = img_lt (px currentNdviImage) deforestThresh;
          deforestation = img_and (img_eq initialForest 1) potentialDeforestation
      in \<lparr>year = y, bname = ''deforestation'', px = selfMask deforestation\<rparr>)"

definition analysisComposites :: "image list \<Rightarrow> int \<Rightarrow> image list" where
  "analysisComposites uniqueComposites baselineEndYear =
     filter (\<lambda>im. year im > baselineEndYear) uniqueComposites"

definition yearlyDeforestation :: "image list \<Rightarrow> raster \<Rightarrow> real \<Rightarrow> image list" where
  "yearlyDeforestation composites initialForest deforestThresh =
     map (\<lambda>im. detectDeforestation im initialForest deforestThresh) composites"

definition persistenceDuration :: int where
  "persistenceDuration = 2"

text \<open>\<^verbatim>\<open>list.get(i)\<close> fails outside the list; \<open>None\<close> is that failure.\<close>

definition ee_get :: "'a list \<Rightarrow> int \<Rightarrow> 'a option" where
  "ee_get xs i = (if 0 \<le> i \<and> i < int (length xs) then Some (xs ! nat i) else None)"

text \<open>The body of the persistence loop, from the two list entries.\<close>

definition persistentDeforestation :: "image \<Rightarrow> image \<Rightarrow> image" where
  "persistentDeforestation a b =
     (let img_Y = a\<lparr>px := unmask 0 (px a)\<rparr>;
          img_Y_plus_1 = b\<lparr>px := unmask 0 (px b)\<rparr>;
          year_Y = year img_Y;
          year_Y_plus_1 = year img_Y_plus_1;
          pd = (if year_Y_plus_1 - year_Y = 1
                then img_and (px img_Y) (px img_Y_plus_1)
                else const_image 0)
      in \<lparr>year = year_Y, bname = ''persistent_deforestation'', px = selfMask pd\<rparr>)"

function persistenceLoop :: "image list \<Rightarrow> int \<Rightarrow> image list \<Rightarrow> image list option" where
  "persistenceLoop deforestationList i refined =
     (if i < int (length deforestationList) - (persistenceDuration - 1)
      then (case ee_get deforestationList i of
              None \<Rightarrow> None
            | Some a \<Rightarrow> (case ee_get deforestationList (i + 1) of
                          None \<Rightarrow> None
                        | Some b \<Rightarrow> persistenceLoop deforestationList (i + 1)
                                     (refined @ [persistentDeforestation a b])))
      else Some refined)"
  by pat_completeness auto
termination
  by (relation "measure (\<lambda>(dl, i, r). nat (int (length dl) - i))")
     (auto simp: persistenceDuration_def)

declare persistenceLoop.simps [simp del]

definition refinedDeforestationList :: "image list \<Rightarrow> image list option" where
  "refinedDeforestationList deforestationList = persistenceLoop deforestationList 0 []"

section \<open>Areas\<close>

record area_image = image +
  deforested_area_sqkm :: real

definition bandNames :: "'a image_scheme \<Rightarrow> string list" where
  "bandNames im = [bname im]"

text \<open>\<^verbatim>\<open>ee.Image.pixelArea()\<close> holds the ground area of every cell, in square metres;
  it is a parameter here. The product keeps the band of the first operand, which is the
  key read back from the dictionary of \<^verbatim>\<open>reduceRegion\<close>.\<close>

definition calculateDeforestedArea ::
  "(pixel \<Rightarrow> real) \<Rightarrow> image \<Rightarrow> pixel list \<Rightarrow> area_image" where
  "calculateDeforestedArea pixelArea im geometry =
     (let areaImage = img_multiply (px im) (\<lambda>p. Some (pixelArea p));
          deforestedAreaSqMeters = reduceRegion_sum areaImage geometry;
          deforestedAreaSqKm = deforestedAreaSqMeters / 1000000
      in \<lparr>year = year im, bname = bname im, px = px im,
          deforested_area_sqkm = deforestedAreaSqKm\<rparr>)"

text \<open>The function mapped over the refined collection.\<close>

definition withArea :: "(pixel \<Rightarrow> real) \<Rightarrow> pixel list \<Rightarrow> image \<Rightarrow> area_image" where
  "withArea pixelArea aoi im =
     (let bandCount = length (bandNames im);
          area = (if bandCount > 0
                  then deforested_area_sqkm (calculateDeforestedArea pixelArea im aoi)
                  else 0)
      in \<lparr>year = year im, bname = bname im, px = px im, deforested_area_sqkm = area\<rparr>)"

definition refinedDeforestationWithArea ::
  "(pixel \<Rightarrow> real) \<Rightarrow> pixel list \<Rightarrow> image list \<Rightarrow> area_image list" where
  "refinedDeforestationWithArea pixelArea aoi refinedDeforestation =
     map (withArea pixelArea aoi) refinedDeforestation"

section \<open>Year of deforestation\<close>

definition yearOfDeforestation :: "'a image_scheme list \<Rightarrow> raster" where
  "yearOfDeforestation refined =
     selfMask (mosaic (map (\<lambda>im. multiply_const (unmask 0 (px im)) (real_of_int (year im)))
                           refined))"

text \<open>A pixel is valid-true in a binary raster when it is unmasked and not zero.\<close>

definition valid_true :: "raster \<Rightarrow> pixel \<Rightarrow> bool" where
  "valid_true r p = (case r p of None \<Rightarrow> False | Some v \<Rightarrow> v \<noteq> 0)"

section \<open>The script's constants and its top level\<close>

definition baselineStartYear :: int where "baselineStartYear = 1984"

definition baselineEndYear :: int where "baselineEndYear = 1990"

definition forestNdviThreshold :: real where "forestNdviThreshold = 1 / 2"

definition deforestationNdviThreshold :: real where "deforestationNdviThreshold = 3 / 10"

text \<open>The candidate-change rasters of the script, as a function of the three loaded
  sensor collections and the area of interest.\<close>

definition script_yearlyDeforestation ::
  "scene list \<Rightarrow> scene list \<Rightarrow> scene list \<Rightarrow> (pixel \<Rightarrow> bool) \<Rightarrow> image list" where
  "script_yearlyDeforestation landsat5 landsat7 landsat8 aoi =
     (let annualL5Composites = createAnnualMedianComposite landsat5 1984 2011 aoi;
          annualL7Composites = createAnnualMedianComposite landsat7 1999 2020 aoi;
          annualL8Composites = createAnnualMedianComposite landsat8 2013 2020 aoi;
          forest = initialForestMask annualL5Composites baselineStartYear baselineEndYear
                     forestNdviThreshold;
          uniqueComposites = uniqueAnnualNdviComposites
            (allAnnualNdviComposites annualL5Composites annualL7Composites annualL8Composites)
      in yearlyDeforestation (analysisComposites uniqueComposites baselineEndYear) forest
           deforestationNdviThreshold)"

section \<open>Quantities of the specification and inputs of the examples\<close>

text \<open>The sum, over the cells of the region, of the product of a raster with the
  ground-area raster, a masked cell counting as zero.\<close>

definition product_sum :: "(pixel \<Rightarrow> real) \<Rightarrow> raster \<Rightarrow> pixel list \<Rightarrow> real" where
  "product_sum pixelArea r geometry =
     sum_list (map (\<lambda>p. case r p of None \<Rightarrow> 0 | Some v \<Rightarrow> v * pixelArea p) geometry)"

text \<open>A ground-area raster with the same area in every cell, and an area of interest
  that covers the whole grid.\<close>

definition uniform_area :: "real \<Rightarrow> pixel \<Rightarrow> real" where
  "uniform_area a p = a"

definition whole_grid :: "pixel \<Rightarrow> bool" where
  "whole_grid p = True"

section \<open>Pixel-wise facts about the image operations\<close>

lemma selfMask_Some_iff: "selfMask r p = Some v \<longleftrightarrow> r p = Some v \<and> v \<noteq> 0"
  by (auto simp: selfMask_def split: option.splits)

lemma selfMask_None_iff: "selfMask r p = None \<longleftrightarrow> r p = None \<or> r p = Some 0"
  by (simp add: selfMask_def split: option.splits)

lemma valid_values_all_masked:
  "\<forall>r\<in>set rs. r p = None \<Longrightarrow> valid_values rs p = []"
  by (induction rs) (simp_all add: valid_values_def List.map_filter_simps)

lemma sum_list_map_filter_case:
  "sum_list (List.map_filter f xs) = sum_list (map (\<lambda>x. case f x of None \<Rightarrow> 0 | Some v \<Rightarrow> v) xs)"
  by (induction xs) (simp_all add: List.map_filter_simps split: option.splits)

lemma reduceRegion_sum_multiply:
  "reduceRegion_sum (img_multiply r (\<lambda>p. Some (a p))) g = product_sum a r g"
  unfolding reduceRegion_sum_def product_sum_def sum_list_map_filter_case
  by (rule arg_cong [where f = sum_list], rule map_cong)
     (simp_all add: img_multiply_def split: option.splits)

section \<open>Change detector\<close>

lemma px_detectDeforestation:
  "px (detectDeforestation cur forest t) p =
     (if forest p = Some 1 \<and> (\<exists>v. px cur p = Some v \<and> v < t) then Some 1 else None)"
  by (auto simp: detectDeforestation_def Let_def selfMask_def img_and_def img_eq_def img_lt_def b2r_def
           split: option.splits)

lemma year_detectDeforestation: "year (detectDeforestation cur forest t) = year cur"
  by (simp add: detectDeforestation_def Let_def)

text \<open>
  Claim C4. For every composite of a year after the baseline, every baseline mask and
  every detection threshold, the detector's output is true at a pixel exactly when the
  baseline mask holds 1 there (its only valid value) and the composite is valid there
  with a value strictly below the threshold. Where the baseline mask is not true the
  output is masked, whatever the year. The year tag of the composite is kept.
\<close>

theorem detectDeforestation_true_iff:
  "(valid_true (px (detectDeforestation cur forest t)) p
      \<longleftrightarrow> forest p = Some 1 \<and> (\<exists>v. px cur p = Some v \<and> v < t))
   \<and> (forest p \<noteq> Some 1 \<longrightarrow> px (detectDeforestation cur forest t) p = None)
   \<and> year (detectDeforestation cur forest t) = year cur"
  by (simp add: px_detectDeforestation year_detectDeforestation valid_true_def)

theorem detectDeforestation_true_iff_witness:
  "valid_true (px (detectDeforestation \<lparr>year = 1991, bname = ''NDVI'', px = [(0, 0) \<mapsto> 1 / 5, (0, 1) \<mapsto> 1 / 10]\<rparr>
                    [(0, 0) \<mapsto> 1] (3 / 10))) (0, 0)
   \<and> [(0, 0) \<mapsto> 1::real] ((0, 1)::pixel) \<noteq> Some 1
   \<and> px (detectDeforestation \<lparr>year = 1991, bname = ''NDVI'', px = [(0, 0) \<mapsto> 1 / 5, (0, 1) \<mapsto> 1 / 10]\<rparr>
                    [(0, 0) \<mapsto> 1] (3 / 10)) (0, 1) = None"
proof -
  let ?c = "\<lparr>year = 1991, bname = ''NDVI'', px = [(0, 0) \<mapsto> 1 / 5, (0, 1) \<mapsto> 1 / 10]\<rparr>"
  let ?f = "[(0, 0) \<mapsto> 1::real] :: raster"
  have a: "?f (0, 0) = Some 1 \<and> (\<exists>v. px ?c (0, 0) = Some v \<and> v < 3 / 10)"
    by (simp add: exI [of _ "1 / 5"])
  have b: "?f (0, 1) \<noteq> Some 1" by simp
  from a b detectDeforestation_true_iff [of ?c ?f "3 / 10" "(0, 0)"]
       detectDeforestation_true_iff [of ?c ?f "3 / 10" "(0, 1)"]
  show ?thesis by blast
qed

section \<open>Baseline reference\<close>

lemma px_initialForestMask:
  "initialForestMask l5 bs be t p =
     (case baselineNdviComposite l5 bs be p of None \<Rightarrow> None
      | Some m \<Rightarrow> if m > t then Some 1 else None)"
  by (simp add: initialForestMask_def selfMask_def img_gt_def b2r_def split: option.splits)

lemma baselineNdviComposite_median:
  "baselineNdviComposite l5 bs be p =
     (let vs = valid_values (map px (baselineAnnualNdvi l5 bs be)) p
      in if vs = [] then None else Some (median vs))"
  by (simp add: baselineNdviComposite_def Let_def reduce_median_def masked_image_def
      valid_values_def List.map_filter_simps)

text \<open>
  Claim C6. The initial forest mask is valid-true exactly at the pixels whose baseline
  aggregate is valid and strictly above the threshold, and masked at every other pixel;
  the aggregate is the median of the values that the composites of the baseline years
  hold at the pixel. When the baseline composites hold no valid data at all (in
  particular when there is no baseline composite), the mask is masked everywhere.
\<close>

theorem initialForestMask_threshold:
  "(valid_true (initialForestMask l5 bs be t) p
      \<longleftrightarrow> (\<exists>m. baselineNdviComposite l5 bs be p = Some m \<and> m > t))
   \<and> (valid_true (initialForestMask l5 bs be t) p \<or> initialForestMask l5 bs be t p = None)
   \<and> baselineNdviComposite l5 bs be p =
       (let vs = valid_values (map px (baselineAnnualNdvi l5 bs be)) p
        in if vs = [] then None else Some (median vs))
   \<and> ((\<forall>im\<in>set (baselineAnnualNdvi l5 bs be). \<forall>q. px im q = None)
        \<longrightarrow> initialForestMask l5 bs be t p = None)"
proof -
  have "baselineNdviComposite l5 bs be p = None"
    if "\<forall>im\<in>set (baselineAnnualNdvi l5 bs be). \<forall>q. px im q = None"
  proof -
    from that have "valid_values (map px (baselineAnnualNdvi l5 bs be)) p = []"
      by (intro valid_values_all_masked) (cases p, auto)
    then show ?thesis by (simp add: baselineNdviComposite_median)
  qed
  then show ?thesis
    using baselineNdviComposite_median [of l5 bs be p]
    by (auto simp: px_initialForestMask valid_true_def split: option.splits)
qed

theorem initialForestMask_threshold_witness:
  "valid_true (initialForestMask [\<lparr>year = 1985, bname = ''NDVI'', px = [(0, 0) \<mapsto> 4 / 5]\<rparr>] 1984 1990 (1 / 2)) (0, 0)
   \<and> initialForestMask [] 1984 1990 (1 / 2) (0, 0) = None"
proof -
  let ?l5 = "[\<lparr>year = 1985, bname = ''NDVI'', px = [(0, 0) \<mapsto> 4 / 5]\<rparr>]"
  have "baselineNdviComposite ?l5 1984 1990 (0, 0) = Some (4 / 5)"
    by (simp add: baselineNdviComposite_def baselineAnnualNdvi_def reduce_median_def
        valid_values_def List.map_filter_simps median_def)
  then have a: "\<exists>m. baselineNdviComposite ?l5 1984 1990 (0, 0) = Some m \<and> m > 1 / 2"
    by (intro exI [of _ "4 / 5"]) simp
  have b: "\<forall>im\<in>set (baselineAnnualNdvi [] 1984 1990). \<forall>q. px im q = None"
    by (simp add: baselineAnnualNdvi_def)
  from a b initialForestMask_threshold [of ?l5 1984 1990 "1 / 2" "(0, 0)"]
    initialForestMask_threshold [of "[]" 1984 1990 "1 / 2" "(0, 0)"]
  show ?thesis by blast
qed

section \<open>Area\<close>

lemma calculateDeforestedArea_area:
  "deforested_area_sqkm (calculateDeforestedArea a im g) = product_sum a (px im) g / 1000000"
  by (simp add: calculateDeforestedArea_def Let_def reduceRegion_sum_multiply)

text \<open>
  Claim C8, as amended. \<^verbatim>\<open>calculateDeforestedArea\<close> returns the sum, over the cells
  of the region, of the product of the binary raster and the ground-area raster, a masked
  cell contributing zero, divided by \<open>10\<^sup>6\<close>: the area is converted from square
  metres to square kilometres inside every call.
\<close>

theorem calculateDeforestedArea_sqkm:
  "deforested_area_sqkm (calculateDeforestedArea pixelArea im geometry)
     = product_sum pixelArea (px im) geometry / 1000000"
  by (rule calculateDeforestedArea_area)

text \<open>
  Claim C8 as stated has the returned number in the unit of the ground-area raster,
  with no conversion inside the call. One valid cell of 900 square metres gives
  \<open>9 / 10000\<close>, not 900.
\<close>

theorem calculateDeforestedArea_native_unit_counterexample:
  "deforested_area_sqkm
     (calculateDeforestedArea (uniform_area 900)
        \<lparr>year = 1991, bname = ''persistent_deforestation'', px = [(0, 0) \<mapsto> 1]\<rparr> [(0, 0)])
   \<noteq> product_sum (uniform_area 900) [(0, 0) \<mapsto> 1] [(0, 0)]"
  by (simp add: calculateDeforestedArea_def Let_def reduceRegion_sum_def product_sum_def
      uniform_area_def img_multiply_def List.map_filter_simps)

lemma product_sum_zero:
  "\<forall>p\<in>set g. r p = None \<or> r p = Some 0 \<Longrightarrow> product_sum a r g = 0"
  by (induction g) (auto simp: product_sum_def)

lemma withArea_area:
  "deforested_area_sqkm (withArea a g im) = product_sum a (px im) g / 1000000"
  by (simp add: withArea_def Let_def bandNames_def calculateDeforestedArea_area)

text \<open>
  Claim C7. For a binary raster that has no valid pixel in the region, and for one
  whose valid pixels all hold 0, the area computed for the raster is exactly zero.
\<close>

theorem area_of_empty_raster_is_zero:
  "\<forall>p\<in>set aoi. px im p = None \<or> px im p = Some 0 \<Longrightarrow>
     deforested_area_sqkm (withArea pixelArea aoi im) = 0
     \<and> deforested_area_sqkm (calculateDeforestedArea pixelArea im aoi) = 0"
  by (simp add: withArea_area calculateDeforestedArea_area product_sum_zero)

theorem area_of_empty_raster_is_zero_witness:
  "deforested_area_sqkm (withArea (uniform_area 900) [(0, 0), (0, 1)]
      \<lparr>year = 1991, bname = ''persistent_deforestation'', px = [(0, 1) \<mapsto> 0]\<rparr>) = 0"
  using area_of_empty_raster_is_zero [of "[(0, 0), (0, 1)]"
      "\<lparr>year = 1991, bname = ''persistent_deforestation'', px = [(0, 1) \<mapsto> 0]\<rparr>" "uniform_area 900"]
  by simp


section \<open>Persistence filter\<close>

lemma ee_get_in_range: "0 \<le> i \<Longrightarrow> nat i < length xs \<Longrightarrow> ee_get xs i = Some (xs ! nat i)"
  by (simp add: ee_get_def)

lemma persistenceLoop_eq:
  "0 \<le> i \<Longrightarrow>
   persistenceLoop dl i acc =
     Some (acc @ map (\<lambda>k. persistentDeforestation (dl ! k) (dl ! Suc k)) [nat i..<length dl - 1])"
proof (induction dl i acc rule: persistenceLoop.induct)
  case (1 dl i acc)
  show ?case
  proof (cases "i < int (length dl) - (persistenceDuration - 1)")
    case True
    with "1.prems" have lt: "nat i < length dl - 1"
      by (simp add: persistenceDuration_def)
    then have g1: "ee_get dl i = Some (dl ! nat i)"
      and g2: "ee_get dl (i + 1) = Some (dl ! Suc (nat i))"
      using "1.prems" by (simp_all add: ee_get_def nat_add_distrib)
    have nx: "nat (i + 1) = Suc (nat i)" using "1.prems" by simp
    have "persistenceLoop dl (i + 1) (acc @ [persistentDeforestation (dl ! nat i) (dl ! Suc (nat i))])
          = Some ((acc @ [persistentDeforestation (dl ! nat i) (dl ! Suc (nat i))])
                  @ map (\<lambda>k. persistentDeforestation (dl ! k) (dl ! Suc k)) [nat (i + 1)..<length dl - 1])"
      using "1.IH" [OF True g1 g2] "1.prems" by simp
    moreover have "[nat i..<length dl - 1] = nat i # [Suc (nat i)..<length dl - 1]"
      using lt by (simp add: upt_conv_Cons)
    ultimately show ?thesis
      using True g1 g2 nx by (subst persistenceLoop.simps) simp
  next
    case False
    with "1.prems" have "[nat i..<length dl - 1] = []"
      by (simp add: persistenceDuration_def)
    with False show ?thesis by (subst persistenceLoop.simps) simp
  qed
qed

lemma refinedDeforestationList_eq:
  "refinedDeforestationList dl =
     Some (map (\<lambda>k. persistentDeforestation (dl ! k) (dl ! Suc k)) [0..<length dl - 1])"
  unfolding refinedDeforestationList_def by (subst persistenceLoop_eq) simp_all

lemma px_persistentDeforestation:
  "px (persistentDeforestation a b) p =
     (if year b - year a = 1 \<and> valid_true (px a) p \<and> valid_true (px b) p then Some 1 else None)"
  by (simp add: persistentDeforestation_def Let_def selfMask_def img_and_def unmask_def
      const_image_def b2r_def valid_true_def split: option.splits)

lemma year_persistentDeforestation: "year (persistentDeforestation a b) = year a"
  by (simp add: persistentDeforestation_def Let_def)

text \<open>
  Claim C2. The persistence loop never reads outside the list and returns one raster
  for each pair of consecutive entries. The raster of the pair \<open>(i, i + 1)\<close> carries
  the year tag \<open>Y\<close> of entry \<open>i\<close>, and it is true at a pixel exactly when entry
  \<open>i + 1\<close> carries the tag \<open>Y + 1\<close> and both entries are candidate-true at the
  pixel; when the tags of the pair are not one year apart the raster is masked everywhere.
  Hence a change is confirmed at a pixel for year \<open>Y\<close> exactly when two consecutive
  entries carry the tags \<open>Y\<close> and \<open>Y + 1\<close> and are both candidate-true there.
\<close>

theorem persistence_filter_confirms:
  "\<exists>R. refinedDeforestationList dl = Some R \<and> length R = length dl - 1 \<and>
     (\<forall>i. Suc i < length dl \<longrightarrow>
        year (R ! i) = year (dl ! i)
        \<and> (valid_true (px (R ! i)) p \<longleftrightarrow>
             year (dl ! Suc i) = year (dl ! i) + 1
             \<and> valid_true (px (dl ! i)) p \<and> valid_true (px (dl ! Suc i)) p)
        \<and> (year (dl ! Suc i) \<noteq> year (dl ! i) + 1 \<longrightarrow> (\<forall>q. px (R ! i) q = None)))
     \<and> ((\<exists>r\<in>set R. year r = Y \<and> valid_true (px r) p) \<longleftrightarrow>
          (\<exists>i. Suc i < length dl \<and> year (dl ! i) = Y \<and> year (dl ! Suc i) = Y + 1
               \<and> valid_true (px (dl ! i)) p \<and> valid_true (px (dl ! Suc i)) p))"
proof -
  define R where "R = map (\<lambda>k. persistentDeforestation (dl ! k) (dl ! Suc k)) [0..<length dl - 1]"
  have len: "length R = length dl - 1" by (simp add: R_def)
  have nth: "R ! i = persistentDeforestation (dl ! i) (dl ! Suc i)" if "Suc i < length dl" for i
    using that by (simp add: R_def)
  have diff: "(year b - year a = 1) = (year b = year a + 1)" for a b :: image by auto
  have pointwise: "\<forall>i. Suc i < length dl \<longrightarrow>
        year (R ! i) = year (dl ! i)
        \<and> (valid_true (px (R ! i)) p \<longleftrightarrow>
             year (dl ! Suc i) = year (dl ! i) + 1
             \<and> valid_true (px (dl ! i)) p \<and> valid_true (px (dl ! Suc i)) p)
        \<and> (year (dl ! Suc i) \<noteq> year (dl ! i) + 1 \<longrightarrow> (\<forall>q. px (R ! i) q = None))"
    by (simp add: nth px_persistentDeforestation year_persistentDeforestation diff valid_true_def)
  have ex: "(\<exists>r\<in>set R. year r = Y \<and> valid_true (px r) p) \<longleftrightarrow>
          (\<exists>i. Suc i < length dl \<and> year (dl ! i) = Y \<and> year (dl ! Suc i) = Y + 1
               \<and> valid_true (px (dl ! i)) p \<and> valid_true (px (dl ! Suc i)) p)"
  proof
    assume "\<exists>r\<in>set R. year r = Y \<and> valid_true (px r) p"
    then obtain i where i: "i < length R" "year (R ! i) = Y" "valid_true (px (R ! i)) p"
      by (auto simp: in_set_conv_nth)
    then have "Suc i < length dl" using len by simp
    with i pointwise show "\<exists>i. Suc i < length dl \<and> year (dl ! i) = Y \<and> year (dl ! Suc i) = Y + 1
               \<and> valid_true (px (dl ! i)) p \<and> valid_true (px (dl ! Suc i)) p"
      by (intro exI [of _ i]) auto
  next
    assume "\<exists>i. Suc i < length dl \<and> year (dl ! i) = Y \<and> year (dl ! Suc i) = Y + 1
               \<and> valid_true (px (dl ! i)) p \<and> valid_true (px (dl ! Suc i)) p"
    then obtain i where i: "Suc i < length dl" "year (dl ! i) = Y" "year (dl ! Suc i) = Y + 1"
      "valid_true (px (dl ! i)) p" "valid_true (px (dl ! Suc i)) p" by blast
    then have "i < length R" using len by simp
    then have "R ! i \<in> set R" by simp
    moreover have "year (R ! i) = Y \<and> valid_true (px (R ! i)) p"
      using i pointwise by auto
    ultimately show "\<exists>r\<in>set R. year r = Y \<and> valid_true (px r) p" by blast
  qed
  have "refinedDeforestationList dl = Some R"
    by (simp add: refinedDeforestationList_eq R_def)
  with len pointwise ex show ?thesis by blast
qed

theorem persistence_filter_confirms_witness:
  "\<exists>R. refinedDeforestationList
          [\<lparr>year = 1991, bname = ''deforestation'', px = [(0, 0) \<mapsto> 1]\<rparr>,
           \<lparr>year = 1992, bname = ''deforestation'', px = [(0, 0) \<mapsto> 1]\<rparr>,
           \<lparr>year = 1994, bname = ''deforestation'', px = [(0, 0) \<mapsto> 1]\<rparr>] = Some R
       \<and> length R = 2 \<and> valid_true (px (R ! 0)) (0, 0) \<and> (\<forall>q. px (R ! 1) q = None)"
proof -
  let ?dl = "[\<lparr>year = 1991, bname = ''deforestation'', px = [(0, 0) \<mapsto> 1]\<rparr>,
           \<lparr>year = 1992, bname = ''deforestation'', px = [(0, 0) \<mapsto> 1]\<rparr>,
           \<lparr>year = 1994, bname = ''deforestation'', px = [(0, 0) \<mapsto> 1]\<rparr>]"
  from persistence_filter_confirms [of ?dl "(0, 0)" 1991]
  obtain R where R: "refinedDeforestationList ?dl = Some R" "length R = length ?dl - 1"
    and all: "\<forall>i. Suc i < length ?dl \<longrightarrow>
        year (R ! i) = year (?dl ! i)
        \<and> (valid_true (px (R ! i)) (0, 0) \<longleftrightarrow>
             year (?dl ! Suc i) = year (?dl ! i) + 1
             \<and> valid_true (px (?dl ! i)) (0, 0) \<and> valid_true (px (?dl ! Suc i)) (0, 0))
        \<and> (year (?dl ! Suc i) \<noteq> year (?dl ! i) + 1 \<longrightarrow> (\<forall>q. px (R ! i) q = None))"
    by blast
  from all [rule_format, of 0] have "valid_true (px (R ! 0)) (0, 0)"
    by (simp add: valid_true_def)
  moreover from all [rule_format, of 1] have "\<forall>q. px (R ! 1) q = None"
    by simp
  ultimately show ?thesis using R by simp
qed

section \<open>Binary rasters\<close>

lemma initialForestMask_one: "initialForestMask l5 bs be t p = Some v \<Longrightarrow> v = 1"
  by (simp add: px_initialForestMask split: option.splits if_splits)

lemma detectDeforestation_one: "px (detectDeforestation cur forest dt) p = Some v \<Longrightarrow> v = 1"
  by (simp add: px_detectDeforestation split: if_splits)

lemma persistentDeforestation_one: "px (persistentDeforestation a b) p = Some v \<Longrightarrow> v = 1"
  by (simp add: px_persistentDeforestation split: if_splits)

text \<open>
  Claim C10. The initial forest mask, every candidate-change raster and every
  confirmed-change raster hold the value 1 at each of their valid pixels: a false pixel
  is a masked pixel, never a stored 0.
\<close>

theorem binary_rasters_store_one:
  "(initialForestMask l5 bs be t p = Some v \<longrightarrow> v = 1)
   \<and> (\<forall>c\<in>set (yearlyDeforestation cs forest dt). px c p = Some v \<longrightarrow> v = 1)
   \<and> (\<forall>R. refinedDeforestationList dl = Some R \<longrightarrow> (\<forall>r\<in>set R. px r p = Some v \<longrightarrow> v = 1))"
  by (auto simp: refinedDeforestationList_eq yearlyDeforestation_def
      dest: initialForestMask_one detectDeforestation_one persistentDeforestation_one)

theorem binary_rasters_store_one_witness:
  "initialForestMask [\<lparr>year = 1985, bname = ''NDVI'', px = [(0, 0) \<mapsto> 4 / 5]\<rparr>] 1984 1990 (1 / 2) (0, 0)
     = Some 1
   \<and> (\<exists>c\<in>set (yearlyDeforestation [\<lparr>year = 1991, bname = ''NDVI'', px = [(0, 0) \<mapsto> 1 / 5]\<rparr>]
                  [(0, 0) \<mapsto> 1] (3 / 10)). px c (0, 0) = Some 1)
   \<and> (\<exists>R. refinedDeforestationList
             [\<lparr>year = 1991, bname = ''deforestation'', px = [(0, 0) \<mapsto> 1]\<rparr>,
              \<lparr>year = 1992, bname = ''deforestation'', px = [(0, 0) \<mapsto> 1]\<rparr>] = Some R
          \<and> (\<exists>r\<in>set R. px r (0, 0) = Some 1))"
proof -
  let ?l5 = "[\<lparr>year = 1985, bname = ''NDVI'', px = [(0, 0) \<mapsto> 4 / 5]\<rparr>]"
  let ?cs = "[\<lparr>year = 1991, bname = ''NDVI'', px = [(0, 0) \<mapsto> 1 / 5]\<rparr>]"
  let ?dl = "[\<lparr>year = 1991, bname = ''deforestation'', px = [(0, 0) \<mapsto> 1]\<rparr>,
              \<lparr>year = 1992, bname = ''deforestation'', px = [(0, 0) \<mapsto> 1]\<rparr>]"
  have a: "\<exists>v. initialForestMask ?l5 1984 1990 (1 / 2) (0, 0) = Some v"
    by (simp add: initialForestMask_def baselineNdviComposite_def baselineAnnualNdvi_def
        reduce_median_def valid_values_def List.map_filter_simps median_def selfMask_def
        img_gt_def b2r_def)
  have b: "\<exists>c\<in>set (yearlyDeforestation ?cs [(0, 0) \<mapsto> 1] (3 / 10)). \<exists>v. px c (0, 0) = Some v"
    by (simp add: yearlyDeforestation_def detectDeforestation_def selfMask_def img_and_def
        img_eq_def img_lt_def b2r_def)
  have c: "\<exists>R. refinedDeforestationList ?dl = Some R \<and> (\<exists>r\<in>set R. \<exists>v. px r (0, 0) = Some v)"
    by (simp add: refinedDeforestationList_eq persistentDeforestation_def selfMask_def img_and_def
        unmask_def b2r_def)
  from a obtain v1 where v1: "initialForestMask ?l5 1984 1990 (1 / 2) (0, 0) = Some v1" by blast
  from b obtain c2 v2 where v2: "c2 \<in> set (yearlyDeforestation ?cs [(0, 0) \<mapsto> 1] (3 / 10))"
    "px c2 (0, 0) = Some v2" by blast
  from c obtain R r v3 where v3: "refinedDeforestationList ?dl = Some R" "r \<in> set R"
    "px r (0, 0) = Some v3" by blast
  from v1 binary_rasters_store_one [of ?l5 1984 1990 "1 / 2" "(0, 0)" v1] have "v1 = 1" by blast
  moreover from v2 binary_rasters_store_one [of _ _ _ _ "(0, 0)" v2 ?cs "[(0, 0) \<mapsto> 1]" "3 / 10"]
  have "v2 = 1" by blast
  moreover from v3 binary_rasters_store_one [of _ _ _ _ "(0, 0)" v3 _ _ _ ?dl]
  have "v3 = 1" by blast
  ultimately show ?thesis using v1 v2 v3 by blast
qed


section \<open>One composite per year\<close>

lemma filter_eq_distinct: "distinct ys \<Longrightarrow> y \<in> set ys \<Longrightarrow> filter (\<lambda>x. x = y) ys = [y]"
  by (induction ys) (auto simp: filter_empty_conv)

lemma distinctYears_props:
  "distinct (distinctYears cs)" "set (distinctYears cs) = year ` set cs"
  by (simp_all add: distinctYears_def)

lemma filter_year_unique:
  "y \<in> year ` set cs \<Longrightarrow>
   filter (\<lambda>u. year u = y) (uniqueAnnualNdviComposites cs) =
     [\<lparr>year = y, bname = ''NDVI'', px = reduce_median (map px (filter (\<lambda>im. year im = y) cs))\<rparr>]"
proof -
  assume y: "y \<in> year ` set cs"
  let ?F = "\<lambda>y. \<lparr>year = y, bname = ''NDVI'', px = reduce_median (map px (filter (\<lambda>im. year im = y) cs))\<rparr>"
  have "filter (\<lambda>u. year u = y) (map ?F (distinctYears cs))
        = map ?F (filter (\<lambda>x. x = y) (distinctYears cs))"
    by (simp add: filter_map comp_def)
  also have "\<dots> = [?F y]"
    using y by (simp add: filter_eq_distinct distinctYears_props)
  finally show ?thesis by (simp add: uniqueAnnualNdviComposites_def Let_def)
qed

text \<open>
  Claim C9. For every year carried by a composite of some sensor, in particular by
  composites of several sensors, the collection of unique annual composites holds exactly
  one image tagged with that year, and it is the pixel-wise median of all the per-sensor
  composites tagged with that year; for a year after the baseline it is the composite the
  analysis uses.
\<close>

theorem multi_sensor_year_is_median:
  "y \<in> year ` set (a5 @ a7 @ a8) \<Longrightarrow>
   \<exists>u. filter (\<lambda>u. year u = y)
          (uniqueAnnualNdviComposites (allAnnualNdviComposites a5 a7 a8)) = [u]
      \<and> year u = y
      \<and> px u = reduce_median (map px (filter (\<lambda>c. year c = y) (a5 @ a7 @ a8)))
      \<and> (y > be \<longrightarrow>
           filter (\<lambda>u. year u = y)
             (analysisComposites (uniqueAnnualNdviComposites (allAnnualNdviComposites a5 a7 a8)) be)
           = [u])"
proof -
  assume y: "y \<in> year ` set (a5 @ a7 @ a8)"
  let ?all = "allAnnualNdviComposites a5 a7 a8"
  let ?u = "\<lparr>year = y, bname = ''NDVI'',
            px = reduce_median (map px (filter (\<lambda>c. year c = y) (a5 @ a7 @ a8)))\<rparr>"
  have st: "filter (\<lambda>im. year im = y) ?all = filter (\<lambda>c. year c = y) (a5 @ a7 @ a8)"
    unfolding allAnnualNdviComposites_def by (rule sort_key_stable)
  from y have "y \<in> year ` set ?all" by (simp add: allAnnualNdviComposites_def)
  then have f: "filter (\<lambda>u. year u = y) (uniqueAnnualNdviComposites ?all) = [?u]"
    by (simp only: filter_year_unique st)
  have "filter (\<lambda>u. year u = y) (analysisComposites (uniqueAnnualNdviComposites ?all) be)
        = filter (\<lambda>u. year u > be) (filter (\<lambda>u. year u = y) (uniqueAnnualNdviComposites ?all))"
    by (simp add: analysisComposites_def conj_commute)
  with f have "y > be \<longrightarrow>
     filter (\<lambda>u. year u = y) (analysisComposites (uniqueAnnualNdviComposites ?all) be) = [?u]"
    by simp
  with f show ?thesis by (intro exI [of _ ?u]) simp
qed

theorem multi_sensor_year_is_median_witness:
  "\<exists>u. filter (\<lambda>u. year u = 1999)
          (uniqueAnnualNdviComposites (allAnnualNdviComposites
             [\<lparr>year = 1999, bname = ''NDVI'', px = [(0, 0) \<mapsto> 1 / 5]\<rparr>]
             [\<lparr>year = 1999, bname = ''NDVI'', px = [(0, 0) \<mapsto> 2 / 5]\<rparr>] [])) = [u]
      \<and> px u (0, 0) = Some (3 / 10)"
proof -
  let ?a5 = "[\<lparr>year = 1999, bname = ''NDVI'', px = [(0, 0) \<mapsto> 1 / 5]\<rparr>]"
  let ?a7 = "[\<lparr>year = 1999, bname = ''NDVI'', px = [(0, 0) \<mapsto> 2 / 5]\<rparr>]"
  have "1999 \<in> year ` set (?a5 @ ?a7 @ [])" by simp
  from multi_sensor_year_is_median [OF this, of 1990]
  obtain u where u: "filter (\<lambda>u. year u = 1999)
          (uniqueAnnualNdviComposites (allAnnualNdviComposites ?a5 ?a7 [])) = [u]"
    "px u = reduce_median (map px (filter (\<lambda>c. year c = 1999) (?a5 @ ?a7 @ [])))"
    by blast
  have "px u (0, 0) = Some (3 / 10)"
    unfolding u(2)
    by (simp add: reduce_median_def valid_values_def List.map_filter_simps median_def)
  with u(1) show ?thesis by blast
qed

section \<open>Year of deforestation\<close>

lemma mosaic_last_unmasked:
  "rs \<noteq> [] \<Longrightarrow> last rs p = Some v \<Longrightarrow> mosaic rs p = Some v"
proof (induction rs)
  case Nil
  then show ?case by simp
next
  case (Cons a rs)
  show ?case
  proof (cases "rs = []")
    case True
    with Cons.prems show ?thesis by (simp add: masked_image_def)
  next
    case False
    with Cons have "mosaic rs p = Some v" by simp
    then show ?thesis by simp
  qed
qed

text \<open>Every image is unmasked with 0 before the mosaic, so the mosaic shows the last
  image of the collection at every pixel.\<close>

lemma yearOfDeforestation_last:
  "refined \<noteq> [] \<Longrightarrow>
   yearOfDeforestation refined p =
     (if valid_true (px (last refined)) p
      then selfMask (multiply_const (px (last refined)) (real_of_int (year (last refined)))) p
      else None)"
proof -
  assume ne: "refined \<noteq> []"
  let ?f = "\<lambda>im. multiply_const (unmask 0 (px im)) (real_of_int (year im))"
  have "last (map ?f refined) p = ?f (last refined) p"
    using ne by (simp add: last_map)
  moreover have "\<exists>v. ?f (last refined) p = Some v"
    by (simp add: multiply_const_def unmask_def split: option.splits)
  ultimately obtain v where v: "?f (last refined) p = Some v" "mosaic (map ?f refined) p = Some v"
    using ne mosaic_last_unmasked [of "map ?f refined" p] by auto
  then show ?thesis
    by (auto simp: yearOfDeforestation_def selfMask_def multiply_const_def unmask_def valid_true_def
        split: option.splits)
qed

text \<open>
  Claim C1 says that the year-of-deforestation raster holds, at every pixel, the
  earliest year of a confirmed raster that is true there. The script does not compute
  that. With confirmed rasters for 1991, 1992 and 1993 of which only the one of 1992 is
  true at a pixel, the result is masked at that pixel; with confirmed rasters for 1991
  and 1992 of which only the one of 1991 is true at a pixel, the result is masked there
  too.
\<close>

theorem yearOfDeforestation_misses_earlier_year:
  "valid_true (px \<lparr>year = 1992, bname = ''persistent_deforestation'', px = [(0, 0) \<mapsto> 1]\<rparr>) (0, 0)
   \<and> yearOfDeforestation
        [\<lparr>year = 1991, bname = ''persistent_deforestation'', px = masked_image\<rparr>,
         \<lparr>year = 1992, bname = ''persistent_deforestation'', px = [(0, 0) \<mapsto> 1]\<rparr>,
         \<lparr>year = 1993, bname = ''persistent_deforestation'', px = masked_image\<rparr>] (0, 0) = None
   \<and> yearOfDeforestation
        [\<lparr>year = 1991, bname = ''persistent_deforestation'', px = [(0, 0) \<mapsto> 1]\<rparr>,
         \<lparr>year = 1992, bname = ''persistent_deforestation'', px = masked_image\<rparr>] (0, 0) = None"
  by (simp add: yearOfDeforestation_def selfMask_def multiply_const_def unmask_def
      masked_image_def valid_true_def)

section \<open>Annual compositor\<close>

lemma compositeLoop_eq:
  "compositeLoop c aoi y e acc = acc @ map (\<lambda>y. medianImage c y aoi) [y..e]"
proof (induction c aoi y e acc rule: compositeLoop.induct)
  case (1 c aoi y e acc)
  show ?case
  proof (cases "y \<le> e")
    case True
    then have "[y..e] = y # [y + 1..e]" by (simp add: upto_rec1)
    with True "1.IH" show ?thesis by (subst compositeLoop.simps) simp
  next
    case False
    then show ?thesis by (subst compositeLoop.simps) simp
  qed
qed

lemma createAnnualMedianComposite_eq:
  "createAnnualMedianComposite c s e aoi = map (\<lambda>y. medianImage c y aoi) [s..e]"
  unfolding createAnnualMedianComposite_def by (subst compositeLoop_eq) simp

lemma createAnnualMedianComposite_elem:
  "m \<in> set (createAnnualMedianComposite c s e aoi) \<Longrightarrow> \<exists>y. m = medianImage c y aoi"
  by (auto simp: createAnnualMedianComposite_eq)

lemma year_medianImage: "year (medianImage c y aoi) = y"
  by (simp add: medianImage_def Let_def)

lemma filterDate_year:
  "s \<in> set (filterDate (fromYMD y 1 1) (fromYMD y 12 31) c) \<Longrightarrow> d_year (time_start s) = y"
  by (cases "time_start s") (auto simp: filterDate_def fromYMD_def date_le_def date_lt_def)

text \<open>Which scenes the date filter of the compositor keeps, for a scene stamped with a
  calendar date: those of the year, except those of December 31.\<close>

lemma filterDate_calendar_year:
  assumes "1 \<le> d_month (time_start s)" "1 \<le> d_day (time_start s)" "d_day (time_start s) \<le> 31"
    "d_month (time_start s) \<le> 12"
  shows "s \<in> set (filterDate (fromYMD y 1 1) (fromYMD y 12 31) c) \<longleftrightarrow>
         s \<in> set c \<and> d_year (time_start s) = y
         \<and> \<not> (d_month (time_start s) = 12 \<and> d_day (time_start s) = 31)"
  using assms
  by (cases "time_start s") (auto simp: filterDate_def fromYMD_def date_le_def date_lt_def)

lemma medianImage_no_observation:
  assumes "\<forall>s\<in>set c. d_year (time_start s) = y \<longrightarrow> (\<forall>q. ndvi s q = None)"
  shows "px (medianImage c y aoi) p = None"
proof -
  let ?yc = "filterDate (fromYMD y 1 1) (fromYMD y 12 31) c"
  have "\<forall>r\<in>set (map ndvi ?yc). r p = None"
  proof
    fix r assume "r \<in> set (map ndvi ?yc)"
    then obtain s where s: "s \<in> set ?yc" "r = ndvi s" by auto
    then have "s \<in> set c" by (simp add: filterDate_def)
    with s assms filterDate_year [OF s(1)] show "r p = None"
      by (simp del: split_paired_All)
  qed
  then have "valid_values (map ndvi ?yc) p = []" by (rule valid_values_all_masked)
  then show ?thesis
    by (simp add: medianImage_def Let_def clip_def reduce_median_def masked_image_def)
qed

text \<open>
  Claim C3 says that the compositor selects the scenes of the whole calendar year,
  December 31 included. The date filter of the script ends at midnight of December 31,
  exclusive: a year whose only scene was acquired on December 31 gets the masked
  sentinel, while the same scene acquired on December 30 is composited.
\<close>

theorem medianImage_drops_december_31:
  "d_year (time_start \<lparr>time_start = \<lparr>d_year = 1991, d_month = 12, d_day = 31, d_ms = 36000000\<rparr>,
                       ndvi = [(0, 0) \<mapsto> 4 / 5]\<rparr>) = 1991
   \<and> px (medianImage [\<lparr>time_start = \<lparr>d_year = 1991, d_month = 12, d_day = 31, d_ms = 36000000\<rparr>,
                        ndvi = [(0, 0) \<mapsto> 4 / 5]\<rparr>] 1991 whole_grid) (0, 0) = None
   \<and> px (medianImage [\<lparr>time_start = \<lparr>d_year = 1991, d_month = 12, d_day = 30, d_ms = 36000000\<rparr>,
                        ndvi = [(0, 0) \<mapsto> 4 / 5]\<rparr>] 1991 whole_grid) (0, 0) = Some (4 / 5)"
  by (simp add: medianImage_def filterDate_def fromYMD_def date_le_def date_lt_def
      masked_image_def clip_def whole_grid_def reduce_median_def valid_values_def
      List.map_filter_simps median_def)

section \<open>A year without observations\<close>

lemma unique_year_masked:
  assumes "\<forall>c\<in>set cs. year c = y \<longrightarrow> (\<forall>q. px c q = None)"
    and "u \<in> set (uniqueAnnualNdviComposites cs)" and "year u = y"
  shows "px u p = None"
proof -
  from assms(2) obtain y' where
    u: "u = \<lparr>year = y', bname = ''NDVI'', px = reduce_median (map px (filter (\<lambda>im. year im = y') cs))\<rparr>"
    by (auto simp: uniqueAnnualNdviComposites_def Let_def)
  with assms(3) have y': "y' = y" by simp
  have "\<forall>r\<in>set (map px (filter (\<lambda>im. year im = y) cs)). r p = None"
    using assms(1) by (auto simp del: split_paired_All)
  then have "valid_values (map px (filter (\<lambda>im. year im = y) cs)) p = []"
    by (rule valid_values_all_masked)
  with u y' show ?thesis by (simp add: reduce_median_def)
qed

lemma script_yearlyDeforestation_masked:
  assumes "\<forall>s\<in>set l5 \<union> set l7 \<union> set l8. d_year (time_start s) = y \<longrightarrow> (\<forall>q. ndvi s q = None)"
    and "c \<in> set (script_yearlyDeforestation l5 l7 l8 aoi)" and "year c = y"
  shows "px c p = None"
proof -
  let ?a5 = "createAnnualMedianComposite l5 1984 2011 aoi"
  let ?a7 = "createAnnualMedianComposite l7 1999 2020 aoi"
  let ?a8 = "createAnnualMedianComposite l8 2013 2020 aoi"
  let ?all = "allAnnualNdviComposites ?a5 ?a7 ?a8"
  let ?forest = "initialForestMask ?a5 baselineStartYear baselineEndYear forestNdviThreshold"
  from assms(2) obtain u where u: "u \<in> set (uniqueAnnualNdviComposites ?all)"
    and c: "c = detectDeforestation u ?forest deforestationNdviThreshold"
    by (auto simp: script_yearlyDeforestation_def Let_def yearlyDeforestation_def
        analysisComposites_def)
  from c assms(3) have yu: "year u = y" by (simp add: year_detectDeforestation)
  have "\<forall>m\<in>set ?all. year m = y \<longrightarrow> (\<forall>q. px m q = None)"
  proof (intro ballI impI allI)
    fix m q assume m: "m \<in> set ?all" "year m = y"
    then have "m \<in> set ?a5 \<union> set ?a7 \<union> set ?a8"
      by (simp add: allAnnualNdviComposites_def)
    then consider "m \<in> set ?a5" | "m \<in> set ?a7" | "m \<in> set ?a8" by (elim UnE)
    then have "\<exists>l. (l = l5 \<or> l = l7 \<or> l = l8) \<and> (\<exists>y'. m = medianImage l y' aoi)"
    proof cases
      case 1
      from createAnnualMedianComposite_elem [OF 1] show ?thesis by (intro exI [of _ l5]) simp
    next
      case 2
      from createAnnualMedianComposite_elem [OF 2] show ?thesis by (intro exI [of _ l7]) simp
    next
      case 3
      from createAnnualMedianComposite_elem [OF 3] show ?thesis by (intro exI [of _ l8]) simp
    qed
    then obtain l where l: "l = l5 \<or> l = l7 \<or> l = l8" and "\<exists>y'. m = medianImage l y' aoi"
      by blast
    with m(2) have me: "m = medianImage l y aoi" by (auto simp: year_medianImage)
    from l assms(1) have "\<forall>s\<in>set l. d_year (time_start s) = y \<longrightarrow> (\<forall>q. ndvi s q = None)"
      by (auto simp del: split_paired_All)
    then show "px m q = None" unfolding me by (rule medianImage_no_observation)
  qed
  from unique_year_masked [OF this u yu] have "px u p = None" .
  then show ?thesis by (simp add: c px_detectDeforestation)
qed

text \<open>
  Claim C5. Let \<open>y\<close> be a year in which no sensor has a valid observation: every
  scene of the year, if there is any, is masked everywhere. Then the composite of each
  sensor for \<open>y\<close> is masked at every pixel; every candidate-change raster of the
  script tagged \<open>y\<close> is masked at every pixel; and the persistence loop over the
  script's candidates returns its list without failing, with every confirmed raster
  that is built from a candidate tagged \<open>y\<close> (as the first or as the second entry of
  its pair) masked at every pixel.
\<close>

theorem year_without_observations_is_all_false:
  assumes "\<forall>s\<in>set l5 \<union> set l7 \<union> set l8. d_year (time_start s) = y \<longrightarrow> (\<forall>q. ndvi s q = None)"
  shows "(\<forall>q. px (medianImage l5 y aoi) q = None)
       \<and> (\<forall>q. px (medianImage l7 y aoi) q = None)
       \<and> (\<forall>q. px (medianImage l8 y aoi) q = None)
       \<and> (\<forall>c\<in>set (script_yearlyDeforestation l5 l7 l8 aoi).
             year c = y \<longrightarrow> (\<forall>q. px c q = None))
       \<and> (\<exists>R. refinedDeforestationList (script_yearlyDeforestation l5 l7 l8 aoi) = Some R
             \<and> length R = length (script_yearlyDeforestation l5 l7 l8 aoi) - 1
             \<and> (\<forall>i. Suc i < length (script_yearlyDeforestation l5 l7 l8 aoi) \<longrightarrow>
                    year (script_yearlyDeforestation l5 l7 l8 aoi ! i) = y
                    \<or> year (script_yearlyDeforestation l5 l7 l8 aoi ! Suc i) = y \<longrightarrow>
                    (\<forall>q. px (R ! i) q = None)))"
proof -
  let ?dl = "script_yearlyDeforestation l5 l7 l8 aoi"
  have m: "\<forall>q. px (medianImage l y aoi) q = None" if "l = l5 \<or> l = l7 \<or> l = l8" for l
  proof -
    from that assms have "\<forall>s\<in>set l. d_year (time_start s) = y \<longrightarrow> (\<forall>q. ndvi s q = None)"
      by (auto simp del: split_paired_All)
    then show ?thesis by (intro allI) (rule medianImage_no_observation)
  qed
  have cand: "\<forall>c\<in>set ?dl. year c = y \<longrightarrow> (\<forall>q. px c q = None)"
    by (intro ballI impI allI) (rule script_yearlyDeforestation_masked [OF assms])
  have "\<forall>q. px (persistentDeforestation (?dl ! i) (?dl ! Suc i)) q = None"
    if i: "Suc i < length ?dl" and y: "year (?dl ! i) = y \<or> year (?dl ! Suc i) = y" for i
  proof -
    from i have "?dl ! i \<in> set ?dl" "?dl ! Suc i \<in> set ?dl" by simp_all
    with cand y have "(\<forall>q. px (?dl ! i) q = None) \<or> (\<forall>q. px (?dl ! Suc i) q = None)"
      by (auto simp del: split_paired_All)
    then show ?thesis
      by (auto simp: px_persistentDeforestation valid_true_def simp del: split_paired_All)
  qed
  then have "\<exists>R. refinedDeforestationList ?dl = Some R \<and> length R = length ?dl - 1
             \<and> (\<forall>i. Suc i < length ?dl \<longrightarrow> year (?dl ! i) = y \<or> year (?dl ! Suc i) = y \<longrightarrow>
                    (\<forall>q. px (R ! i) q = None))"
    by (simp add: refinedDeforestationList_eq del: split_paired_All)
  then show ?thesis
    by (intro conjI m cand) simp_all
qed

theorem year_without_observations_is_all_false_witness:
  "px (medianImage [\<lparr>time_start = \<lparr>d_year = 1994, d_month = 6, d_day = 1, d_ms = 0\<rparr>,
                     ndvi = [(0, 0) \<mapsto> 4 / 5]\<rparr>] 1995 whole_grid) (0, 0) = None
   \<and> (\<exists>R. refinedDeforestationList
            (script_yearlyDeforestation
               [\<lparr>time_start = \<lparr>d_year = 1994, d_month = 6, d_day = 1, d_ms = 0\<rparr>,
                 ndvi = [(0, 0) \<mapsto> 4 / 5]\<rparr>] [] [] whole_grid) = Some R)"
proof -
  let ?l5 = "[\<lparr>time_start = \<lparr>d_year = 1994, d_month = 6, d_day = 1, d_ms = 0\<rparr>,
               ndvi = [(0, 0) \<mapsto> 4 / 5]\<rparr>]"
  have "\<forall>s\<in>set ?l5 \<union> set [] \<union> set []. d_year (time_start s) = 1995 \<longrightarrow> (\<forall>q. ndvi s q = None)"
    by simp
  note t = year_without_observations_is_all_false [OF this, of whole_grid]
  from t have a: "px (medianImage ?l5 1995 whole_grid) (0, 0) = None"
    by (elim conjE) (erule allE)
  from t have "\<exists>R. refinedDeforestationList (script_yearlyDeforestation ?l5 [] [] whole_grid) = Some R"
    by (elim conjE exE) (rule exI)
  with a show ?thesis by (rule conjI)
qed

end
